theory Spec2Isabelle
  imports Complex_Main
begin

section \<open>Citizen Connect ACS: normalizer, identity assignment, validation, orchestration\<close>

text \<open>
  A pandas DataFrame is modelled as the list of its rows, in index order, and a row as a
  record with one field per column.  A cell that may hold a null (\<open>None\<close>, \<open>NaN\<close>,
  \<open>pd.NA\<close>) is an \<open>option\<close>, with \<open>None\<close> for every kind of null: the code only ever
  asks \<open>notnull\<close> of a cell.  A float cell carries a \<open>real\<close>; no arithmetic is done on it.
  Column dtypes are the field types of the records, so a table with a missing or an
  ill-typed column is not a value of the model.

  Calls into libraries (autocensus, geomet, datetime, the Socrata client) and the file
  \<open>sources/acs5_labels.csv\<close> are parameters of the functions that use them.  A Python
  exception is a value \<open>Raised c\<close> on the left of a sum, \<open>c\<close> the name of the class that a
  handler would match.  A \<open>string\<close> is a list of bytes; the strings that the code slices
  or compares (dates, variable codes) are ASCII.
\<close>

subsection \<open>Python strings\<close>

text \<open>\<open>sep.join(parts)\<close>.\<close>

fun str_join :: "string \<Rightarrow> string list \<Rightarrow> string" where
  "str_join sep [] = []"
| "str_join sep [x] = x"
| "str_join sep (x # y # ys) = x @ sep @ str_join sep (y # ys)"

definition digit_char :: "nat \<Rightarrow> char" where
  "digit_char d = ''0123456789'' ! d"

text \<open>\<open>str(n)\<close> for an integer: decimal digits, most significant first, \<open>-\<close> before a
  negative number.\<close>

function str_nat :: "nat \<Rightarrow> string" where
  "str_nat n = (if n < 10 then [digit_char n] else str_nat (n div 10) @ [digit_char (n mod 10)])"
  by pat_completeness auto

termination
  by (relation "measure (\<lambda>n. n)") auto

declare str_nat.simps [simp del]

definition str_int :: "int \<Rightarrow> string" where
  "str_int i = (if i < 0 then CHR ''-'' # str_nat (nat (- i)) else str_nat (nat i))"

subsection \<open>Exceptions\<close>

datatype exn = Raised string

text \<open>\<open>Series.map(f)\<close> with an \<open>f\<close> that may raise: the first exception ends the map.\<close>

fun series_map :: "('a \<Rightarrow> exn + 'b) \<Rightarrow> 'a list \<Rightarrow> exn + 'b list" where
  "series_map f [] = Inr []"
| "series_map f (x # xs) =
     (case f x of
        Inl e \<Rightarrow> Inl e
      | Inr y \<Rightarrow> (case series_map f xs of Inl e \<Rightarrow> Inl e | Inr ys \<Rightarrow> Inr (y # ys)))"

subsection \<open>Rows\<close>

text \<open>
  The canonical columns, in the order of \<open>schema\<close> in \<open>transform_dataframe\<close>; the column
  \<open>value\<close> is the field \<open>value'\<close>.  \<open>assign_row_id\<close> adds the column \<open>row_id\<close>.
\<close>

record canonical_row =
  source :: "string option"
  topic :: "string option"
  concept :: "string option"
  variable :: "string option"
  label :: "string option"
  value' :: "real option"
  denominator_variable :: "string option"
  denominator_label :: "string option"
  denominator :: "real option"
  year :: "int option"
  year_date :: "string option"
  geo_id :: "string option"
  geo_name :: "string option"
  geo_type :: "string option"
  location :: "string option"

record keyed_row = canonical_row +
  row_id :: "string option"

subsection \<open>Identity assignment (update_socrata_dataset.py)\<close>

text \<open>
  \<open>make_row_id\<close>: the template is \<open>{source}|{variable}|{denominator_variable}|{year}|{geo_id}\<close>;
  each field is replaced by the empty string when it is null, and \<open>format_map\<close> renders a
  string as itself and an integer as \<open>str\<close> does.  It reads a row of any table that has the
  five identifying columns.
\<close>

definition fmt_str :: "string option \<Rightarrow> string" where
  "fmt_str c = (case c of None \<Rightarrow> [] | Some s \<Rightarrow> s)"

definition fmt_int :: "int option \<Rightarrow> string" where
  "fmt_int c = (case c of None \<Rightarrow> [] | Some i \<Rightarrow> str_int i)"

definition make_row_id :: "'a canonical_row_scheme \<Rightarrow> string" where
  "make_row_id row =
     str_join ''|''
       [fmt_str (source row), fmt_str (variable row), fmt_str (denominator_variable row),
        fmt_int (year row), fmt_str (geo_id row)]"

text \<open>
  \<open>str\<close> of a float cell that holds a whole year: the digits and \<open>.0\<close> (the form Python
  prints below \<open>1e16\<close>).
\<close>

definition fmt_float :: "int option \<Rightarrow> string" where
  "fmt_float c = (case c of None \<Rightarrow> [] | Some i \<Rightarrow> str_int i @ ''.0'')"

definition make_row_id_float :: "'a canonical_row_scheme \<Rightarrow> string" where
  "make_row_id_float row =
     str_join ''|''
       [fmt_str (source row), fmt_str (variable row), fmt_str (denominator_variable row),
        fmt_float (year row), fmt_str (geo_id row)]"

text \<open>
  \<open>assign_row_id\<close>: \<open>dataframe.assign(row_id=dataframe.apply(make_row_id, axis=1))\<close>, the
  identity of each row stored in the new column.  A \<open>year\<close> column that holds a null is a
  float column in pandas, and \<open>make_row_id\<close> then receives the years of the other rows as
  floats.  A frame without rows gets a \<open>row_id\<close> column without strings; the validator
  below rejects it.
\<close>

definition assign_row_id :: "canonical_row list \<Rightarrow> keyed_row list" where
  "assign_row_id dataframe =
     (if list_ex (\<lambda>row. year row = None) dataframe
      then map (\<lambda>row. canonical_row.extend row \<lparr>row_id = Some (make_row_id_float row)\<rparr>) dataframe
      else map (\<lambda>row. canonical_row.extend row \<lparr>row_id = Some (make_row_id row)\<rparr>) dataframe)"

subsection \<open>Validation (update_socrata_dataset.py)\<close>

text \<open>
  What the validator takes from outside the repository: the current year
  (\<open>dt.now().year\<close>), \<open>datetime.strptime\<close> and geomet's \<open>wkt.loads\<close>.  Each of the two
  functions returns a value or raises; the code catches \<open>ValueError\<close> and nothing else
  (geomet raises \<open>StopIteration\<close> on some malformed texts).  Of the value that \<open>wkt.loads\<close>
  returns the code reads whether it is a dict and its entry \<open>type\<close>.
\<close>

datatype geo_json = Geo_Dict "string option" | Not_Dict

record env =
  now_year :: int
  strptime :: "string \<Rightarrow> string \<Rightarrow> exn + (int \<times> int \<times> int)"
  wkt_loads :: "string \<Rightarrow> exn + geo_json"

definition validate_year_date :: "env \<Rightarrow> string \<Rightarrow> exn + bool" where
  "validate_year_date e v =
     (case strptime e v ''%Y-%m-%d'' of
        Inl ex \<Rightarrow> (if ex = Raised ''ValueError'' then Inr False else Inl ex)
      | Inr d \<Rightarrow> Inr True)"

definition validate_location :: "env \<Rightarrow> string \<Rightarrow> exn + bool" where
  "validate_location e v =
     (case wkt_loads e v of
        Inl ex \<Rightarrow> (if ex = Raised ''ValueError'' then Inr False else Inl ex)
      | Inr (Geo_Dict t) \<Rightarrow> (if t = Some ''Point'' then Inr True else Inr False)
      | Inr Not_Dict \<Rightarrow> Inr False)"

text \<open>
  \<open>schema.validate\<close> runs the checks of the schema one after the other and stops at the
  first that fails (a \<open>SchemaError\<close>, here \<open>Inr False\<close>) or raises another exception
  (\<open>Inl\<close>): \<open>and_then a b\<close> is \<open>a\<close> followed by \<open>b\<close>.
\<close>

definition and_then :: "exn + bool \<Rightarrow> exn + bool \<Rightarrow> exn + bool" where
  "and_then a b = (case a of Inl ex \<Rightarrow> Inl ex | Inr ok \<Rightarrow> (if ok then b else Inr False))"

text \<open>
  A pandera \<open>Column\<close> is not nullable unless it says so.  Its element-wise check is mapped
  over the cells of a column that has passed the null check, and the results are looked
  at afterwards.  The schema coerces each column to its dtype (\<open>coerce=True\<close>) and admits
  no other column (\<open>strict=True\<close>); the columns of the model have their dtypes, and no
  others exist, so both are the identity here.
\<close>

definition not_null :: "'a option \<Rightarrow> bool" where
  "not_null c = (c \<noteq> None)"

definition column_check :: "('a \<Rightarrow> bool) \<Rightarrow> 'a option \<Rightarrow> bool" where
  "column_check p c = (case c of None \<Rightarrow> False | Some v \<Rightarrow> p v)"

definition element_check :: "('a \<Rightarrow> exn + bool) \<Rightarrow> 'a option list \<Rightarrow> exn + bool" where
  "element_check p column =
     (if list_ex (\<lambda>c. c = None) column then Inr False
      else case series_map p (List.map_filter (\<lambda>c. c) column) of
             Inl ex \<Rightarrow> Inl ex
           | Inr results \<Rightarrow> Inr (list_all (\<lambda>ok. ok) results))"

text \<open>
  The column constraints, in the order of the schema.  The nullable columns (\<open>topic\<close>,
  \<open>concept\<close>, the three denominator columns) have no check.  The columns from \<open>source\<close>
  to \<open>year\<close>, and the three \<open>geo\<close> columns, have no check that can raise, so each group
  is one condition on a row.
\<close>

definition columns_to_year :: "env \<Rightarrow> keyed_row \<Rightarrow> bool" where
  "columns_to_year e row =
     (not_null (source row) \<and> not_null (variable row) \<and> not_null (label row) \<and>
      not_null (value' row) \<and>
      column_check (\<lambda>y. y \<le> now_year e \<and> 2000 \<le> y) (year row))"

definition geo_columns :: "keyed_row \<Rightarrow> bool" where
  "geo_columns row =
     (not_null (geo_id row) \<and> not_null (geo_name row) \<and> not_null (geo_type row))"

text \<open>
  The column \<open>row_id\<close>: a string column without nulls and without duplicates
  (\<open>allow_duplicates=False\<close>).  The \<open>row_id\<close> column of a frame without rows holds no
  strings and does not pass as a string column.
\<close>

definition row_id_column :: "keyed_row list \<Rightarrow> bool" where
  "row_id_column dataframe =
     (dataframe \<noteq> [] \<and> list_all (\<lambda>row. not_null (row_id row)) dataframe \<and>
      distinct (map row_id dataframe))"

text \<open>
  The two table-wide checks are declared without \<open>ignore_na\<close>, and pandera's default for
  it is true: before a table-wide check runs, every row that has a null in any column is
  dropped from the frame that the check sees.
\<close>

definition has_null :: "keyed_row \<Rightarrow> bool" where
  "has_null row =
     (source row = None \<or> topic row = None \<or> concept row = None \<or> variable row = None \<or>
      label row = None \<or> value' row = None \<or> denominator_variable row = None \<or>
      denominator_label row = None \<or> denominator row = None \<or> year row = None \<or>
      year_date row = None \<or> geo_id row = None \<or> geo_name row = None \<or>
      geo_type row = None \<or> location row = None \<or> row_id row = None)"

definition dropna :: "keyed_row list \<Rightarrow> keyed_row list" where
  "dropna dataframe = filter (\<lambda>row. \<not> has_null row) dataframe"

text \<open>
  The first table-wide check, \<open>df["year_date"][:4] == df["year"].astype(str)\<close>.  It is
  declared \<open>element_wise=True\<close>, so pandera calls it on each row that is left: there
  \<open>df["year"]\<close> is the year of the row, a Python \<open>int\<close>, which has no attribute \<open>astype\<close>.
  The call raises \<open>AttributeError\<close> before anything is compared.
\<close>

definition year_date_aligned :: "keyed_row \<Rightarrow> exn + bool" where
  "year_date_aligned row = Inl (Raised ''AttributeError'')"

definition year_date_check :: "keyed_row list \<Rightarrow> exn + bool" where
  "year_date_check dataframe =
     (case series_map year_date_aligned (dropna dataframe) of
        Inl ex \<Rightarrow> Inl ex
      | Inr results \<Rightarrow> Inr (list_all (\<lambda>ok. ok) results))"

text \<open>The second table-wide check, on the whole frame that is left:
  \<open>df["row_id"] == df.apply(make_row_id, axis=1)\<close>.\<close>

definition row_id_matches :: "keyed_row \<Rightarrow> bool" where
  "row_id_matches row = (row_id row = Some (make_row_id row))"

definition row_id_check :: "keyed_row list \<Rightarrow> exn + bool" where
  "row_id_check dataframe = Inr (list_all row_id_matches (dropna dataframe))"

text \<open>
  \<open>validate_dataframe\<close> returns \<open>True\<close> when \<open>schema.validate\<close> returns and \<open>False\<close> when it
  raises \<open>SchemaError\<close>; any other exception leaves \<open>validate_dataframe\<close>, which catches
  \<open>SchemaError\<close> only.
\<close>

definition validate_dataframe :: "env \<Rightarrow> keyed_row list \<Rightarrow> exn + bool" where
  "validate_dataframe e dataframe =
     and_then (Inr (list_all (columns_to_year e) dataframe))
    (and_then (element_check (validate_year_date e) (map year_date dataframe))
    (and_then (Inr (list_all geo_columns dataframe))
    (and_then (element_check (validate_location e) (map location dataframe))
    (and_then (Inr (row_id_column dataframe))
    (and_then (year_date_check dataframe)
              (row_id_check dataframe))))))"

subsection \<open>The ACS5 normalizer (sources/acs5.py)\<close>

text \<open>
  A row of the frame that autocensus returns, with the columns the normalizer reads.
  Its columns \<open>year\<close>, \<open>value\<close>, \<open>geo_id\<close> and \<open>geo_type\<close> are the fields \<open>raw_year\<close>,
  \<open>raw_value\<close>, \<open>raw_geo_id\<close> and \<open>raw_geo_type\<close>; \<open>year\<close> is an integer column.  The
  type of a geometry object is left open.
\<close>

record 'g raw_row =
  variable_code :: "string option"
  raw_year :: int
  raw_value :: "real option"
  date :: "string option"
  name :: "string option"
  geometry :: 'g
  raw_geo_id :: "string option"
  raw_geo_type :: "string option"

text \<open>
  A row of \<open>sources/acs5_labels.csv\<close>.  The file is not among the sources; the code
  merges it on \<open>variable\<close> and afterwards selects \<open>topic\<close>, \<open>concept\<close> and \<open>label\<close>, which
  no earlier step creates, so these are its columns.
\<close>

record label_row =
  lbl_variable :: "string option"
  lbl_topic :: "string option"
  lbl_concept :: "string option"
  lbl_label :: "string option"

text \<open>The mask under \<open>~\<close> in the first step: the rows of a variable that changed meaning.\<close>

definition changed_meaning :: "('g, 'a) raw_row_scheme \<Rightarrow> bool" where
  "changed_meaning r =
     ((variable_code r \<in> set [Some ''DP05_0018E'', Some ''S0101_C01_028E''] \<and> raw_year r \<le> 2016) \<or>
      (variable_code r \<in> set [Some ''DP05_0017E'', Some ''S0101_C01_026E''] \<and> raw_year r \<ge> 2017))"

text \<open>
  The column assignments under \<open># Transform data\<close>, for one row and its serialized
  geometry.  The frame has no \<open>topic\<close>, \<open>concept\<close> or \<open>label\<close> column before the merge;
  the record holds \<open>None\<close> there until \<open>merge_left\<close> sets them.
\<close>

definition assign_columns :: "'g raw_row \<Rightarrow> string option \<Rightarrow> canonical_row" where
  "assign_columns r loc =
     \<lparr>source = Some ''ACS5'', topic = None, concept = None,
      variable = variable_code r, label = None, value' = raw_value r,
      denominator_variable = None, denominator_label = None, denominator = None,
      year = Some (raw_year r), year_date = date r,
      geo_id = raw_geo_id r, geo_name = name r, geo_type = raw_geo_type r,
      location = loc\<rparr>"

text \<open>
  \<open>dataframe.merge(labels, how="left", on="variable")\<close> for one left row: one output row
  per label row with the same key, in the order of the label table, and one row with
  null label columns when there is none.  pandas matches a null key with a null key.
\<close>

definition merge_left :: "label_row list \<Rightarrow> canonical_row \<Rightarrow> canonical_row list" where
  "merge_left labels row =
     (case filter (\<lambda>l. lbl_variable l = variable row) labels of
        [] \<Rightarrow> [row\<lparr>topic := None, concept := None, label := None\<rparr>]
      | ls \<Rightarrow> map (\<lambda>l. row\<lparr>topic := lbl_topic l, concept := lbl_concept l, label := lbl_label l\<rparr>) ls)"

text \<open>
  \<open>transform_dataframe\<close>, with autocensus's \<open>serialize_to_wkt\<close> and the label table as
  parameters.  \<open>serialize_to_wkt\<close> may raise, return null or return a text; the code puts
  no handler around it, so an exception leaves \<open>transform_dataframe\<close>.
\<close>

definition transform_dataframe ::
  "('g \<Rightarrow> exn + string option) \<Rightarrow> label_row list \<Rightarrow> 'g raw_row list \<Rightarrow> exn + canonical_row list" where
  "transform_dataframe serialize_to_wkt labels source_dataframe =
     (let dataframe = filter (\<lambda>r. \<not> changed_meaning r) source_dataframe in
      case series_map serialize_to_wkt (map geometry dataframe) of
        Inl e \<Rightarrow> Inl e
      | Inr locations \<Rightarrow>
          (let assigned = map (\<lambda>(r, loc). assign_columns r loc) (zip dataframe locations);
               merged = concat (map (merge_left labels) assigned)
           in Inr (filter (\<lambda>row. value' row \<noteq> None) merged)))"

text \<open>\<open>get_source_acs5\<close>: \<open>query_run\<close> is what \<open>Query(\<dots>).run()\<close> does, a frame or an
  exception.\<close>

definition get_source_acs5 ::
  "('g \<Rightarrow> exn + string option) \<Rightarrow> label_row list \<Rightarrow> exn + 'g raw_row list \<Rightarrow> exn + canonical_row list" where
  "get_source_acs5 serialize_to_wkt labels query_run =
     (case query_run of
        Inl e \<Rightarrow> Inl e
      | Inr dataframe \<Rightarrow> transform_dataframe serialize_to_wkt labels dataframe)"

subsection \<open>The orchestrator (update_socrata_dataset.py)\<close>

definition DATASET_ID :: string where
  "DATASET_ID = ''enbi-fu9w''"

text \<open>
  What a run leaves behind: the log, and the tables with which \<open>update_socrata_dataset\<close>
  was called, in order.  The warning of \<open>validate_dataframe\<close> is logged without pandera's
  diagnostic.
\<close>

datatype log_entry = Info string | Warning string

record run_state =
  log :: "log_entry list"
  published :: "keyed_row list list"

definition logger :: "log_entry \<Rightarrow> run_state \<Rightarrow> run_state" where
  "logger m st = st\<lparr>log := log st @ [m]\<rparr>"

text \<open>
  The loop of \<open>main\<close> over \<open>sources.items()\<close>.  A source function takes no argument, so it
  is given by its outcome.  \<open>update\<close> is \<open>update_socrata_dataset\<close>: a revision URL or an
  exception of the Socrata client.  The body has no \<open>try\<close>: an exception of a source
  function, of \<open>validate_dataframe\<close> or of \<open>update\<close> ends the loop and leaves \<open>main\<close>, which
  the result records as \<open>Some\<close> of it.
\<close>

fun main_loop ::
  "env \<Rightarrow> (keyed_row list \<Rightarrow> exn + string) \<Rightarrow> (string \<times> (exn + canonical_row list)) list \<Rightarrow>
   run_state \<Rightarrow> exn option \<times> run_state" where
  "main_loop e update [] st = (None, st)"
| "main_loop e update ((source_name, source_function) # rest) st =
     (let st = logger (Info (''Getting data for source '' @ source_name)) st in
      case source_function of
        Inl ex \<Rightarrow> (Some ex, st)
      | Inr dataframe0 \<Rightarrow>
          (let dataframe = assign_row_id dataframe0;
               st = logger (Info (''Validating dataframe for source '' @ source_name)) st
           in case validate_dataframe e dataframe of
                Inl ex \<Rightarrow> (Some ex, st)
              | Inr dataframe_is_valid \<Rightarrow>
                  if \<not> dataframe_is_valid
                  then main_loop e update rest
                         (logger (Warning ''Validation failed; skipping to next source'')
                            (logger (Warning ''Failed to validate dataframe'') st))
                  else
                    (let st = logger (Info (''Updating Socrata dataset for source '' @ source_name @
                                            '': '' @ DATASET_ID)) st;
                         st = st\<lparr>published := published st @ [dataframe]\<rparr>
                     in case update dataframe of
                          Inl ex \<Rightarrow> (Some ex, st)
                        | Inr revision_url \<Rightarrow>
                            main_loop e update rest
                              (logger (Info (''Updated Socrata dataset; revision will be published soon: '' @ revision_url)) st))))"

definition main ::
  "env \<Rightarrow> (keyed_row list \<Rightarrow> exn + string) \<Rightarrow> ('g \<Rightarrow> exn + string option) \<Rightarrow> label_row list \<Rightarrow>
   exn + 'g raw_row list \<Rightarrow> exn option \<times> run_state" where
  "main e update serialize_to_wkt labels query_run =
     main_loop e update [(''ACS5'', get_source_acs5 serialize_to_wkt labels query_run)]
       \<lparr>log = [], published = []\<rparr>"

text \<open>The exit status of the Python process: 0 when \<open>main\<close> returns, 1 when an exception
  leaves it.\<close>

definition exit_status :: "exn option \<times> run_state \<Rightarrow> int" where
  "exit_status r = (case fst r of None \<Rightarrow> 0 | Some ex \<Rightarrow> 1)"

subsection \<open>Sample data\<close>

text \<open>
  A small county table and the answers of the libraries on the strings that occur in it,
  used to run the functions above on concrete input.  The stand-in for a geometry object
  is a string; \<open>sample_serialize_to_wkt\<close> raises on a geometry it cannot render and
  \<open>lenient_serialize_to_wkt\<close> returns null for it.
\<close>

definition sample_env :: env where
  "sample_env =
     \<lparr>now_year = 2020,
      strptime = (\<lambda>v f.
         if f = ''%Y-%m-%d''
         then (case map_of [(''2016-01-01'', (2016, 1, 1)), (''2017-01-01'', (2017, 1, 1)),
                            (''2018-01-01'', (2018, 1, 1)), (''2019-01-01'', (2019, 1, 1))] v of
                 Some d \<Rightarrow> Inr d
               | None \<Rightarrow> Inl (Raised ''ValueError''))
         else Inl (Raised ''ValueError'')),
      wkt_loads = (\<lambda>v.
         if v = ''POINT (-86.6 32.5)'' then Inr (Geo_Dict (Some ''Point''))
         else if v \<in> set [[], ''POINT''] then Inl (Raised ''StopIteration'')
         else Inl (Raised ''ValueError''))\<rparr>"

definition sample_serialize_to_wkt :: "string \<Rightarrow> exn + string option" where
  "sample_serialize_to_wkt g =
     (if g = ''Point(-86.6, 32.5)'' then Inr (Some ''POINT (-86.6 32.5)'')
      else Inl (Raised ''ValueError''))"

definition lenient_serialize_to_wkt :: "string \<Rightarrow> exn + string option" where
  "lenient_serialize_to_wkt g =
     (if g = ''Point(-86.6, 32.5)'' then Inr (Some ''POINT (-86.6 32.5)'') else Inr None)"

definition sample_labels :: "label_row list" where
  "sample_labels =
     [\<lparr>lbl_variable = Some ''DP05_0002E'', lbl_topic = Some ''Population'',
       lbl_concept = Some ''Sex'', lbl_label = Some ''Male''\<rparr>,
      \<lparr>lbl_variable = Some ''DP05_0003E'', lbl_topic = Some ''Population'',
       lbl_concept = Some ''Sex'', lbl_label = Some ''Female''\<rparr>,
      \<lparr>lbl_variable = Some ''DP05_0017E'', lbl_topic = Some ''Population'',
       lbl_concept = None, lbl_label = Some ''Median age''\<rparr>,
      \<lparr>lbl_variable = Some ''DP05_0018E'', lbl_topic = Some ''Population'',
       lbl_concept = None, lbl_label = Some ''Median age''\<rparr>]"

definition sample_raw :: "string \<Rightarrow> int \<Rightarrow> real option \<Rightarrow> string raw_row" where
  "sample_raw code y v =
     \<lparr>variable_code = Some code, raw_year = y, raw_value = v,
      date = Some (str_int y @ ''-01-01''), name = Some ''Autauga County, Alabama'',
      geometry = ''Point(-86.6, 32.5)'', raw_geo_id = Some ''0500000US01001'',
      raw_geo_type = Some ''county''\<rparr>"

definition sample_source :: "string raw_row list" where
  "sample_source =
     [sample_raw ''DP05_0002E'' 2018 (Some 26874),
      sample_raw ''DP05_0003E'' 2018 None,
      sample_raw ''DP05_0017E'' 2016 (Some 37),
      sample_raw ''DP05_0017E'' 2017 (Some 38),
      sample_raw ''DP05_0018E'' 2016 (Some 37),
      sample_raw ''DP05_0018E'' 2017 (Some 38)]"

definition sample_canonical ::
  "string \<Rightarrow> string option \<Rightarrow> string \<Rightarrow> int \<Rightarrow> real \<Rightarrow> string option \<Rightarrow> canonical_row" where
  "sample_canonical code c l y v loc =
     \<lparr>source = Some ''ACS5'', topic = Some ''Population'', concept = c,
      variable = Some code, label = Some l, value' = Some v,
      denominator_variable = None, denominator_label = None, denominator = None,
      year = Some y, year_date = Some (str_int y @ ''-01-01''),
      geo_id = Some ''0500000US01001'', geo_name = Some ''Autauga County, Alabama'',
      geo_type = Some ''county'', location = loc\<rparr>"

definition sample_output :: "canonical_row list" where
  "sample_output =
     [sample_canonical ''DP05_0002E'' (Some ''Sex'') ''Male'' 2018 26874 (Some ''POINT (-86.6 32.5)''),
      sample_canonical ''DP05_0017E'' None ''Median age'' 2016 37 (Some ''POINT (-86.6 32.5)''),
      sample_canonical ''DP05_0018E'' None ''Median age'' 2017 38 (Some ''POINT (-86.6 32.5)'')]"

definition malformed_source :: "string raw_row list" where
  "malformed_source =
     [sample_raw ''DP05_0002E'' 2018 (Some 26874),
      (sample_raw ''DP05_0003E'' 2018 (Some 28542))\<lparr>geometry := ''Point(-86.6)''\<rparr>]"

definition malformed_output :: "canonical_row list" where
  "malformed_output =
     [sample_canonical ''DP05_0002E'' (Some ''Sex'') ''Male'' 2018 26874 (Some ''POINT (-86.6 32.5)''),
      sample_canonical ''DP05_0003E'' (Some ''Sex'') ''Female'' 2018 28542 None]"

definition sample_keyed :: "string \<Rightarrow> string \<Rightarrow> keyed_row" where
  "sample_keyed d k =
     canonical_row.extend
       (sample_canonical ''DP05_0002E'' (Some ''Sex'') ''Male'' 2018 26874 (Some ''POINT (-86.6 32.5)'')
          \<lparr>year_date := Some d\<rparr>)
       \<lparr>row_id = Some k\<rparr>"

definition sample_update :: "keyed_row list \<Rightarrow> exn + string" where
  "sample_update t = Inr ''https://nhit-odp.data.socrata.com/d/enbi-fu9w/revisions/1''"

definition failing_update :: "keyed_row list \<Rightarrow> exn + string" where
  "failing_update t = Inl (Raised ''HTTPError'')"

text \<open>A row in which no cell is null: the sample row with a denominator.\<close>

definition sample_full :: canonical_row where
  "sample_full =
     (sample_canonical ''DP05_0002E'' (Some ''Sex'') ''Male'' 2018 26874 (Some ''POINT (-86.6 32.5)''))
       \<lparr>denominator_variable := Some ''DP05_0001E'',
        denominator_label := Some ''Total population'', denominator := Some 55200\<rparr>"

text \<open>A source frame whose row has the year 2018 and the date \<open>2019-01-01\<close>, and the table
  that the normalizer makes of it.\<close>

definition misaligned_source :: "string raw_row list" where
  "misaligned_source =
     [(sample_raw ''DP05_0002E'' 2018 (Some 26874))\<lparr>date := Some ''2019-01-01''\<rparr>]"

definition misaligned_output :: "canonical_row list" where
  "misaligned_output =
     [(sample_canonical ''DP05_0002E'' (Some ''Sex'') ''Male'' 2018 26874 (Some ''POINT (-86.6 32.5)''))
        \<lparr>year_date := Some ''2019-01-01''\<rparr>]"

lemmas sample_defs =
  sample_env_def sample_serialize_to_wkt_def lenient_serialize_to_wkt_def sample_labels_def
  sample_raw_def sample_source_def sample_canonical_def sample_output_def malformed_source_def
  malformed_output_def sample_keyed_def sample_update_def failing_update_def sample_full_def
  misaligned_source_def misaligned_output_def

lemmas model_defs =
  transform_dataframe_def changed_meaning_def assign_columns_def merge_left_def
  assign_row_id_def make_row_id_def make_row_id_float_def fmt_str_def fmt_int_def fmt_float_def
  canonical_row.extend_def
  validate_dataframe_def and_then_def element_check_def columns_to_year_def geo_columns_def
  row_id_column_def has_null_def dropna_def year_date_aligned_def year_date_check_def
  row_id_matches_def row_id_check_def not_null_def column_check_def
  validate_year_date_def validate_location_def
  str_int_def str_nat.simps digit_char_def get_source_acs5_def main_def exit_status_def
  logger_def DATASET_ID_def Let_def

subsection \<open>Facts about the model\<close>

lemma str_int_2018: "str_int 2018 = ''2018''"
  by (simp add: str_int_def str_nat.simps digit_char_def)

lemma make_row_id_explicit:
  "make_row_id row =
     fmt_str (source row) @ ''|'' @ fmt_str (variable row) @ ''|'' @
     fmt_str (denominator_variable row) @ ''|'' @ fmt_int (year row) @ ''|'' @ fmt_str (geo_id row)"
  by (simp add: make_row_id_def)

lemma series_map_zip:
  "series_map f (map g xs) = Inr ys \<Longrightarrow>
     set (zip xs ys) = {(x, y). x \<in> set xs \<and> f (g x) = Inr y}"
proof (induction xs arbitrary: ys)
  case Nil
  then show ?case by simp
next
  case (Cons x xs)
  from Cons.prems obtain y ys' where fx: "f (g x) = Inr y"
    and rest: "series_map f (map g xs) = Inr ys'" and ys: "ys = y # ys'"
    by (auto split: sum.splits)
  from Cons.IH [OF rest] fx ys show ?case by auto
qed

lemma series_map_Inl_iff:
  "(\<exists>e. series_map f xs = Inl e) \<longleftrightarrow> (\<exists>x\<in>set xs. \<exists>e. f x = Inl e)"
  by (induction xs) (auto split: sum.splits)

lemma series_map_total:
  "(\<forall>x\<in>set xs. \<exists>y. f x = Inr y) \<Longrightarrow> \<exists>ys. series_map f xs = Inr ys"
  by (induction xs) (auto split: sum.splits)

lemma and_then_simps:
  "and_then (Inl ex) b = Inl ex"
  "and_then (Inr True) b = b"
  "and_then (Inr False) b = Inr False"
  by (simp_all add: and_then_def)

lemma and_then_True_iff: "and_then a b = Inr True \<longleftrightarrow> a = Inr True \<and> b = Inr True"
  by (auto simp: and_then_def split: sum.splits if_splits)

lemma validate_dataframe_True_iff:
  "validate_dataframe e df = Inr True \<longleftrightarrow>
     list_all (columns_to_year e) df \<and>
     element_check (validate_year_date e) (map year_date df) = Inr True \<and>
     list_all geo_columns df \<and>
     element_check (validate_location e) (map location df) = Inr True \<and>
     row_id_column df \<and> year_date_check df = Inr True \<and> row_id_check df = Inr True"
  by (simp add: validate_dataframe_def and_then_True_iff)

lemma element_check_returns:
  assumes "\<forall>v. Some v \<in> set column \<longrightarrow> (\<exists>ok. p v = Inr ok)"
  shows "\<exists>ok. element_check p column = Inr ok"
proof (cases "list_ex (\<lambda>c. c = None) column")
  case True
  then show ?thesis by (auto simp: element_check_def)
next
  case False
  have "\<forall>x\<in>set (List.map_filter (\<lambda>c. c) column). \<exists>y. p x = Inr y"
    using assms by (auto simp: List.map_filter_def)
  then obtain results where "series_map p (List.map_filter (\<lambda>c. c) column) = Inr results"
    using series_map_total by blast
  with False show ?thesis by (simp add: element_check_def)
qed

lemma validate_dataframe_duplicate:
  assumes "\<not> distinct (map row_id df)"
    and "\<exists>ok. element_check (validate_year_date e) (map year_date df) = Inr ok"
    and "\<exists>ok. element_check (validate_location e) (map location df) = Inr ok"
  shows "validate_dataframe e df = Inr False"
proof -
  from assms(2) obtain ok1 where a: "element_check (validate_year_date e) (map year_date df) = Inr ok1"
    by blast
  from assms(3) obtain ok2 where b: "element_check (validate_location e) (map location df) = Inr ok2"
    by blast
  from assms(1) have c: "\<not> row_id_column df"
    by (simp add: row_id_column_def)
  show ?thesis
    by (simp add: validate_dataframe_def a b c and_then_def)
qed

text \<open>The two table-wide checks reject no table: they pass when every row has a null
  cell, and the first raises when a row has none.\<close>

lemma table_checks_never_reject:
  "and_then (year_date_check df) (row_id_check df) \<noteq> Inr False"
proof (cases "dropna df")
  case Nil
  then show ?thesis
    by (simp add: year_date_check_def row_id_check_def and_then_def)
next
  case (Cons row rows)
  then show ?thesis
    by (simp add: year_date_check_def year_date_aligned_def and_then_def)
qed


lemma merge_left_rows:
  "row' \<in> set (merge_left labels row) \<Longrightarrow>
     \<exists>t c l. row' = row\<lparr>topic := t, concept := c, label := l\<rparr>"
  by (auto simp: merge_left_def split: list.splits)

lemma merge_left_nonempty: "merge_left labels row \<noteq> []"
  by (simp add: merge_left_def split: list.splits)

lemma merge_left_keeps:
  "row' \<in> set (merge_left labels row) \<Longrightarrow>
     source row' = source row \<and> variable row' = variable row \<and> value' row' = value' row \<and>
     denominator_variable row' = denominator_variable row \<and>
     denominator_label row' = denominator_label row \<and> denominator row' = denominator row \<and>
     year row' = year row \<and> year_date row' = year_date row \<and> geo_id row' = geo_id row \<and>
     geo_name row' = geo_name row \<and> geo_type row' = geo_type row \<and> location row' = location row"
  by (auto dest: merge_left_rows)

lemma transform_dataframe_rows:
  assumes "transform_dataframe ser labels src = Inr out"
  shows "set out =
     {row. \<exists>r loc. r \<in> set src \<and> \<not> changed_meaning r \<and> ser (geometry r) = Inr loc \<and>
        row \<in> set (merge_left labels (assign_columns r loc)) \<and> value' row \<noteq> None}"
proof -
  let ?df = "filter (\<lambda>r. \<not> changed_meaning r) src"
  from assms obtain locations where
    locs: "series_map ser (map geometry ?df) = Inr locations"
    and out: "out = filter (\<lambda>row. value' row \<noteq> None)
      (concat (map (merge_left labels) (map (\<lambda>(r, loc). assign_columns r loc) (zip ?df locations))))"
    by (auto simp: transform_dataframe_def Let_def split: sum.splits)
  have z: "set (zip ?df locations) = {(r, loc). r \<in> set ?df \<and> ser (geometry r) = Inr loc}"
    using series_map_zip [OF locs] .
  show ?thesis
    unfolding out by (auto simp: z)
qed

lemma transform_dataframe_origin:
  assumes "transform_dataframe ser labels src = Inr out" and "row \<in> set out"
  shows "\<exists>r loc. r \<in> set src \<and> \<not> changed_meaning r \<and> ser (geometry r) = Inr loc \<and>
     source row = Some ''ACS5'' \<and> variable row = variable_code r \<and> value' row = raw_value r \<and>
     denominator_variable row = None \<and> denominator_label row = None \<and> denominator row = None \<and>
     year row = Some (raw_year r) \<and> year_date row = date r \<and> geo_id row = raw_geo_id r \<and>
     geo_name row = name r \<and> geo_type row = raw_geo_type r \<and> location row = loc"
proof -
  from assms obtain r loc where r: "r \<in> set src" "\<not> changed_meaning r" "ser (geometry r) = Inr loc"
    and m: "row \<in> set (merge_left labels (assign_columns r loc))"
    by (auto simp: transform_dataframe_rows)
  from merge_left_keeps [OF m] r show ?thesis
    by (auto simp: assign_columns_def)
qed

lemma transform_dataframe_keeps:
  assumes "transform_dataframe ser labels src = Inr out" and "r \<in> set src"
    and "\<not> changed_meaning r" and "raw_value r \<noteq> None"
  shows "\<exists>row\<in>set out. variable row = variable_code r \<and> year row = Some (raw_year r) \<and>
     value' row = raw_value r \<and> year_date row = date r \<and> geo_id row = raw_geo_id r \<and>
     geo_name row = name r \<and> geo_type row = raw_geo_type r \<and> ser (geometry r) = Inr (location row)"
proof -
  let ?df = "filter (\<lambda>r. \<not> changed_meaning r) src"
  from assms(1) obtain locations where
    locs: "series_map ser (map geometry ?df) = Inr locations"
    by (auto simp: transform_dataframe_def Let_def split: sum.splits)
  have "r \<in> set ?df" using assms by simp
  then have "\<not> (\<exists>e. ser (geometry r) = Inl e)"
    using locs series_map_Inl_iff [of ser "map geometry ?df"] by auto
  then obtain loc where loc: "ser (geometry r) = Inr loc"
    by (cases "ser (geometry r)") auto
  obtain row where m: "row \<in> set (merge_left labels (assign_columns r loc))"
    using merge_left_nonempty [of labels "assign_columns r loc"] by (meson last_in_set)
  from merge_left_keeps [OF m] have k: "value' row = raw_value r" "variable row = variable_code r"
    "year row = Some (raw_year r)" "year_date row = date r" "geo_id row = raw_geo_id r"
    "geo_name row = name r" "geo_type row = raw_geo_type r" "location row = loc"
    by (simp_all add: assign_columns_def)
  have "row \<in> set out"
    using assms m loc k by (auto simp: transform_dataframe_rows [OF assms(1)])
  with k loc show ?thesis by auto
qed

lemma published_logger: "published (logger m st) = published st"
  by (simp add: logger_def)



lemma main_loop_validation_raise:
  "validate_dataframe e (assign_row_id t) = Inl ex \<Longrightarrow>
   main_loop e update ((n, Inr t) # rest) st =
     (Some ex,
      (logger (Info (''Validating dataframe for source '' @ n))
          (logger (Info (''Getting data for source '' @ n)) st)))"
  by (simp add: Let_def)


lemma main_loop_update_ok:
  "validate_dataframe e (assign_row_id t) = Inr True \<Longrightarrow> update (assign_row_id t) = Inr url \<Longrightarrow>
   main_loop e update ((n, Inr t) # rest) st =
     main_loop e update rest
       (logger (Info (''Updated Socrata dataset; revision will be published soon: '' @ url))
         ((logger (Info (''Updating Socrata dataset for source '' @ n @ '': '' @ DATASET_ID))
         (logger (Info (''Validating dataframe for source '' @ n))
          (logger (Info (''Getting data for source '' @ n)) st)))
        \<lparr>published := published st @ [assign_row_id t]\<rparr>))"
  by (simp add: Let_def published_logger)


subsection \<open>The sample run\<close>

lemma sample_transform:
  "transform_dataframe sample_serialize_to_wkt sample_labels sample_source = Inr sample_output"
  by (simp add: sample_defs model_defs)

lemma sample_valid: "validate_dataframe sample_env (assign_row_id sample_output) = Inr True"
  by (simp add: sample_defs model_defs)

lemma sample_row_ids:
  "map row_id (assign_row_id sample_output) =
     [Some ''ACS5|DP05_0002E||2018|0500000US01001'',
      Some ''ACS5|DP05_0017E||2016|0500000US01001'',
      Some ''ACS5|DP05_0018E||2017|0500000US01001'']"
  by (simp add: sample_defs model_defs)

lemma sample_single_valid:
  "validate_dataframe sample_env
     [sample_keyed ''2018-01-01'' ''ACS5|DP05_0002E||2018|0500000US01001''] = Inr True"
  by (simp add: sample_defs model_defs)

lemma malformed_raises:
  "transform_dataframe sample_serialize_to_wkt sample_labels malformed_source = Inl (Raised ''ValueError'')"
  by (simp add: sample_defs model_defs)

lemma malformed_lenient:
  "transform_dataframe lenient_serialize_to_wkt sample_labels malformed_source = Inr malformed_output"
  by (simp add: sample_defs model_defs)


lemma full_raises:
  "validate_dataframe sample_env (assign_row_id [sample_full]) = Inl (Raised ''AttributeError'')"
  by (simp add: sample_defs model_defs)

lemma misaligned_transform:
  "transform_dataframe sample_serialize_to_wkt sample_labels misaligned_source = Inr misaligned_output"
  by (simp add: sample_defs model_defs)

lemma misaligned_valid:
  "validate_dataframe sample_env (assign_row_id misaligned_output) = Inr True"
  by (simp add: sample_defs model_defs)

subsection \<open>The claims\<close>

text \<open>
  Claim C1.  \<open>assign_row_id\<close> stores what \<open>make_row_id\<close> computes, and the second
  table-wide check of the schema is written to compare the two on every row.  It does
  not reject a table with a stale identifier: the sample row, whose denominator cells
  are null as in every ACS5 row, is accepted with an identifier that names the wrong
  year, since the check never sees the row; and on a row without a null cell the first
  table-wide check raises before the comparison is made.
\<close>

theorem stale_row_id_accepted:
  "row_id (sample_keyed ''2018-01-01'' ''ACS5|DP05_0002E||2017|0500000US01001'') \<noteq>
     Some (make_row_id (sample_keyed ''2018-01-01'' ''ACS5|DP05_0002E||2017|0500000US01001'')) \<and>
   validate_dataframe sample_env
     [sample_keyed ''2018-01-01'' ''ACS5|DP05_0002E||2017|0500000US01001''] = Inr True \<and>
   validate_dataframe sample_env
     [canonical_row.extend sample_full \<lparr>row_id = Some ''ACS5|DP05_0002E|DP05_0001E|2017|0500000US01001''\<rparr>] =
     Inl (Raised ''AttributeError'')"
  by (simp add: sample_defs model_defs)

text \<open>
  Claim C2.  Two rows that agree on \<open>source\<close>, \<open>variable\<close>, \<open>denominator_variable\<close>,
  \<open>year\<close> and \<open>geo_id\<close> get the same identity, whatever their \<open>value\<close>, \<open>label\<close>,
  \<open>year_date\<close> or any other field.
\<close>

theorem make_row_id_ignores_other_fields:
  assumes "source a = source b" and "variable a = variable b"
    and "denominator_variable a = denominator_variable b"
    and "year a = year b" and "geo_id a = geo_id b"
  shows "make_row_id a = make_row_id b"
  using assms by (simp add: make_row_id_def)

text \<open>Two rows for the same subject that differ in value, label and concept collide.\<close>

theorem make_row_id_ignores_other_fields_witness:
  "value' (sample_canonical ''DP05_0002E'' (Some ''Sex'') ''Male'' 2018 26874 None) \<noteq>
     value' (sample_canonical ''DP05_0002E'' None ''Men'' 2018 27000 None) \<and>
   label (sample_canonical ''DP05_0002E'' (Some ''Sex'') ''Male'' 2018 26874 None) \<noteq>
     label (sample_canonical ''DP05_0002E'' None ''Men'' 2018 27000 None) \<and>
   make_row_id (sample_canonical ''DP05_0002E'' (Some ''Sex'') ''Male'' 2018 26874 None) =
     make_row_id (sample_canonical ''DP05_0002E'' None ''Men'' 2018 27000 None)"
  using make_row_id_ignores_other_fields [of "sample_canonical ''DP05_0002E'' (Some ''Sex'') ''Male'' 2018 26874 None"
               "sample_canonical ''DP05_0002E'' None ''Men'' 2018 27000 None"]
  by (simp add: sample_canonical_def)

text \<open>
  Claim C3.  The superseded codes are \<open>DP05_0017E\<close> and \<open>S0101_C01_026E\<close> (commented
  \<open>To 2016\<close> in \<open>ACS5_VARIABLES\<close>), their successors \<open>DP05_0018E\<close> and \<open>S0101_C01_028E\<close>
  (\<open>From 2017\<close>).  When the normalizer returns a table, no row of it has a superseded
  code with a year from 2017 on or a successor code with a year before 2017; every source
  row with any other combination of code and year, and a value that is not null, has its
  row in the table; in particular no row has a superseded code at year 2017 or a
  successor code at year 2016.
\<close>

theorem conflicting_definition_filter:
  assumes "transform_dataframe ser labels src = Inr out"
  shows
   "(\<forall>row\<in>set out. \<forall>y. year row = Some y \<longrightarrow>
       \<not> (variable row \<in> {Some ''DP05_0017E'', Some ''S0101_C01_026E''} \<and> y \<ge> 2017) \<and>
       \<not> (variable row \<in> {Some ''DP05_0018E'', Some ''S0101_C01_028E''} \<and> y < 2017)) \<and>
    (\<forall>r\<in>set src.
       \<not> (variable_code r \<in> {Some ''DP05_0017E'', Some ''S0101_C01_026E''} \<and> raw_year r \<ge> 2017) \<and>
       \<not> (variable_code r \<in> {Some ''DP05_0018E'', Some ''S0101_C01_028E''} \<and> raw_year r < 2017) \<and>
       raw_value r \<noteq> None \<longrightarrow>
       (\<exists>row\<in>set out. variable row = variable_code r \<and> year row = Some (raw_year r) \<and>
          value' row = raw_value r \<and> year_date row = date r \<and> geo_id row = raw_geo_id r \<and>
          geo_name row = name r \<and> geo_type row = raw_geo_type r)) \<and>
    \<not> (\<exists>row\<in>set out. variable row \<in> {Some ''DP05_0017E'', Some ''S0101_C01_026E''} \<and> year row = Some 2017) \<and>
    \<not> (\<exists>row\<in>set out. variable row \<in> {Some ''DP05_0018E'', Some ''S0101_C01_028E''} \<and> year row = Some 2016)"
proof -
  have excl: "\<not> (variable row \<in> {Some ''DP05_0017E'', Some ''S0101_C01_026E''} \<and> y \<ge> 2017) \<and>
       \<not> (variable row \<in> {Some ''DP05_0018E'', Some ''S0101_C01_028E''} \<and> y < 2017)"
    if "row \<in> set out" and "year row = Some y" for row y
  proof -
    from transform_dataframe_origin [OF assms that(1)] obtain r where
      "r \<in> set src" "\<not> changed_meaning r" "variable row = variable_code r"
      "year row = Some (raw_year r)"
      by blast
    with that(2) show ?thesis
      by (auto simp: changed_meaning_def)
  qed
  have keep: "\<exists>row\<in>set out. variable row = variable_code r \<and> year row = Some (raw_year r) \<and>
          value' row = raw_value r \<and> year_date row = date r \<and> geo_id row = raw_geo_id r \<and>
          geo_name row = name r \<and> geo_type row = raw_geo_type r"
    if "r \<in> set src"
      and "\<not> (variable_code r \<in> {Some ''DP05_0017E'', Some ''S0101_C01_026E''} \<and> raw_year r \<ge> 2017)"
      and "\<not> (variable_code r \<in> {Some ''DP05_0018E'', Some ''S0101_C01_028E''} \<and> raw_year r < 2017)"
      and "raw_value r \<noteq> None" for r
  proof -
    from that(2,3) have "\<not> changed_meaning r"
      by (auto simp: changed_meaning_def)
    from transform_dataframe_keeps [OF assms that(1) this that(4)] show ?thesis
      by blast
  qed
  from excl keep show ?thesis
    by (intro conjI) (blast, blast, fastforce, fastforce)
qed

text \<open>C3 on the sample table, which has both median-age codes at 2016 and at 2017.\<close>

theorem conflicting_definition_filter_witness:
  "transform_dataframe sample_serialize_to_wkt sample_labels sample_source = Inr sample_output \<and>
   sample_raw ''DP05_0017E'' 2017 (Some 38) \<in> set sample_source \<and>
   sample_raw ''DP05_0018E'' 2016 (Some 37) \<in> set sample_source \<and>
   (Some ''DP05_0017E'', Some 2017) \<notin> set (map (\<lambda>row. (variable row, year row)) sample_output) \<and>
   (Some ''DP05_0018E'', Some 2016) \<notin> set (map (\<lambda>row. (variable row, year row)) sample_output) \<and>
   (Some ''DP05_0017E'', Some 2016) \<in> set (map (\<lambda>row. (variable row, year row)) sample_output) \<and>
   (Some ''DP05_0018E'', Some 2017) \<in> set (map (\<lambda>row. (variable row, year row)) sample_output)"
proof -
  note t = conflicting_definition_filter [OF sample_transform]
  have src: "sample_raw ''DP05_0017E'' 2017 (Some 38) \<in> set sample_source"
    "sample_raw ''DP05_0018E'' 2016 (Some 37) \<in> set sample_source"
    "sample_raw ''DP05_0017E'' 2016 (Some 37) \<in> set sample_source"
    "sample_raw ''DP05_0018E'' 2017 (Some 38) \<in> set sample_source"
    by (simp_all add: sample_source_def)
  from t have "\<not> (\<exists>row\<in>set sample_output.
      variable row \<in> {Some ''DP05_0017E'', Some ''S0101_C01_026E''} \<and> year row = Some 2017)"
    by blast
  then have a: "(Some ''DP05_0017E'', Some 2017) \<notin> set (map (\<lambda>row. (variable row, year row)) sample_output)"
    by auto
  from t have "\<not> (\<exists>row\<in>set sample_output.
      variable row \<in> {Some ''DP05_0018E'', Some ''S0101_C01_028E''} \<and> year row = Some 2016)"
    by blast
  then have b: "(Some ''DP05_0018E'', Some 2016) \<notin> set (map (\<lambda>row. (variable row, year row)) sample_output)"
    by auto
  from t have keep: "\<And>r. r \<in> set sample_source \<Longrightarrow>
       \<not> (variable_code r \<in> {Some ''DP05_0017E'', Some ''S0101_C01_026E''} \<and> raw_year r \<ge> 2017) \<Longrightarrow>
       \<not> (variable_code r \<in> {Some ''DP05_0018E'', Some ''S0101_C01_028E''} \<and> raw_year r < 2017) \<Longrightarrow>
       raw_value r \<noteq> None \<Longrightarrow>
       \<exists>row\<in>set sample_output. variable row = variable_code r \<and> year row = Some (raw_year r)"
    by blast
  from keep [OF src(3)]
  have c: "(Some ''DP05_0017E'', Some 2016) \<in> set (map (\<lambda>row. (variable row, year row)) sample_output)"
    by (force simp: sample_raw_def)
  from keep [OF src(4)]
  have d: "(Some ''DP05_0018E'', Some 2017) \<in> set (map (\<lambda>row. (variable row, year row)) sample_output)"
    by (force simp: sample_raw_def)
  from sample_transform src a b c d show ?thesis by blast
qed

text \<open>
  Claim C4.  No row of a table that the normalizer returns has a null \<open>value\<close>.
\<close>

theorem output_value_not_null:
  "transform_dataframe ser labels src = Inr out \<Longrightarrow> \<forall>row\<in>set out. value' row \<noteq> None"
  by (auto simp: transform_dataframe_rows)

text \<open>The sample source has a row with a null value; the output has none, and not its
  variable.\<close>

theorem output_value_not_null_witness:
  "transform_dataframe sample_serialize_to_wkt sample_labels sample_source = Inr sample_output \<and>
   sample_raw ''DP05_0003E'' 2018 None \<in> set sample_source \<and>
   raw_value (sample_raw ''DP05_0003E'' 2018 None) = None \<and>
   None \<notin> set (map value' sample_output) \<and>
   Some ''DP05_0003E'' \<notin> set (map variable sample_output)"
proof -
  from output_value_not_null [OF sample_transform] have "None \<notin> set (map value' sample_output)"
    by auto
  moreover have "sample_raw ''DP05_0003E'' 2018 None \<in> set sample_source"
    by (simp add: sample_source_def)
  moreover have "raw_value (sample_raw ''DP05_0003E'' 2018 None) = None"
    by (simp add: sample_raw_def)
  moreover have "Some ''DP05_0003E'' \<notin> set (map variable sample_output)"
    by (simp add: sample_output_def sample_canonical_def)
  ultimately show ?thesis using sample_transform by blast
qed

text \<open>
  Claim C5.  The first table-wide check of the schema is written to compare the first
  four characters of \<open>year_date\<close> with the year.  It does not reject the table of the
  claim: the sample row with the year 2018 and the date \<open>2019-01-01\<close> is accepted, since
  the check never sees a row with a null cell; on a row without a null cell, aligned or
  not, the check raises.
\<close>

theorem misaligned_year_date_accepted:
  "year (sample_keyed ''2019-01-01'' ''ACS5|DP05_0002E||2018|0500000US01001'') = Some 2018 \<and>
   year_date (sample_keyed ''2019-01-01'' ''ACS5|DP05_0002E||2018|0500000US01001'') =
     Some ''2019-01-01'' \<and>
   take 4 ''2019-01-01'' \<noteq> str_int 2018 \<and>
   validate_dataframe sample_env
     [sample_keyed ''2019-01-01'' ''ACS5|DP05_0002E||2018|0500000US01001''] = Inr True \<and>
   validate_dataframe sample_env (assign_row_id [sample_full]) = Inl (Raised ''AttributeError'')"
  by (simp add: sample_defs model_defs)

text \<open>
  Claim C6.  The \<open>row_id\<close> values of an accepted table are pairwise distinct, and a table
  in which two rows carry the same \<open>row_id\<close> is not accepted: the validator returns
  \<open>False\<close> for it whenever \<open>strptime\<close> and \<open>wkt.loads\<close> raise nothing but \<open>ValueError\<close> on
  the dates and locations of the table.
\<close>

theorem row_id_unique_enforced:
  "(validate_dataframe e df = Inr True \<longrightarrow> distinct (map row_id df)) \<and>
   ((\<exists>i j. i < j \<and> j < length df \<and> row_id (df ! i) = row_id (df ! j))
      \<longrightarrow> validate_dataframe e df \<noteq> Inr True) \<and>
   ((\<exists>i j. i < j \<and> j < length df \<and> row_id (df ! i) = row_id (df ! j)) \<and>
    (\<forall>row\<in>set df. \<forall>d. year_date row = Some d \<longrightarrow> (\<exists>ok. validate_year_date e d = Inr ok)) \<and>
    (\<forall>row\<in>set df. \<forall>l. location row = Some l \<longrightarrow> (\<exists>ok. validate_location e l = Inr ok))
      \<longrightarrow> validate_dataframe e df = Inr False)"
proof -
  have d: "distinct (map row_id df)" if "validate_dataframe e df = Inr True"
    using that by (simp add: validate_dataframe_True_iff row_id_column_def)
  have nd: "\<not> distinct (map row_id df)"
    if "\<exists>i j. i < j \<and> j < length df \<and> row_id (df ! i) = row_id (df ! j)"
  proof -
    from that obtain i j where ij: "i < j" "j < length df" "row_id (df ! i) = row_id (df ! j)"
      by blast
    then have "map row_id df ! i = map row_id df ! j" "i < length (map row_id df)"
      "j < length (map row_id df)" "i \<noteq> j" by auto
    then show ?thesis
      using nth_eq_iff_index_eq by blast
  qed
  have f: "validate_dataframe e df = Inr False"
    if "\<exists>i j. i < j \<and> j < length df \<and> row_id (df ! i) = row_id (df ! j)"
      and yd: "\<forall>row\<in>set df. \<forall>d. year_date row = Some d \<longrightarrow> (\<exists>ok. validate_year_date e d = Inr ok)"
      and loc: "\<forall>row\<in>set df. \<forall>l. location row = Some l \<longrightarrow> (\<exists>ok. validate_location e l = Inr ok)"
  proof -
    from yd have "\<forall>v. Some v \<in> set (map year_date df) \<longrightarrow> (\<exists>ok. validate_year_date e v = Inr ok)"
      by auto
    then have a: "\<exists>ok. element_check (validate_year_date e) (map year_date df) = Inr ok"
      by (rule element_check_returns)
    from loc have "\<forall>v. Some v \<in> set (map location df) \<longrightarrow> (\<exists>ok. validate_location e v = Inr ok)"
      by auto
    then have b: "\<exists>ok. element_check (validate_location e) (map location df) = Inr ok"
      by (rule element_check_returns)
    from nd [OF that(1)] a b show ?thesis
      by (rule validate_dataframe_duplicate)
  qed
  from d nd f show ?thesis by blast
qed

text \<open>A valid row is accepted alone and rejected when it is in the table twice.\<close>

theorem row_id_unique_enforced_witness:
  "validate_dataframe sample_env
     [sample_keyed ''2018-01-01'' ''ACS5|DP05_0002E||2018|0500000US01001''] = Inr True \<and>
   validate_dataframe sample_env
       [sample_keyed ''2018-01-01'' ''ACS5|DP05_0002E||2018|0500000US01001'',
        sample_keyed ''2018-01-01'' ''ACS5|DP05_0002E||2018|0500000US01001''] = Inr False \<and>
   distinct (map row_id (assign_row_id sample_output))"
proof -
  let ?k = "sample_keyed ''2018-01-01'' ''ACS5|DP05_0002E||2018|0500000US01001''"
  have dup: "\<exists>i j. i < j \<and> j < length [?k, ?k] \<and> row_id ([?k, ?k] ! i) = row_id ([?k, ?k] ! j)"
    by (rule exI [of _ 0], rule exI [of _ 1]) simp
  have yd: "\<forall>row\<in>set [?k, ?k]. \<forall>d. year_date row = Some d \<longrightarrow>
      (\<exists>ok. validate_year_date sample_env d = Inr ok)"
    by (auto simp: sample_defs canonical_row.extend_def validate_year_date_def)
  have loc: "\<forall>row\<in>set [?k, ?k]. \<forall>l. location row = Some l \<longrightarrow>
      (\<exists>ok. validate_location sample_env l = Inr ok)"
    by (auto simp: sample_defs canonical_row.extend_def validate_location_def)
  from row_id_unique_enforced [of sample_env "[?k, ?k]"] dup yd loc
  have "validate_dataframe sample_env [?k, ?k] = Inr False"
    by blast
  moreover from row_id_unique_enforced [of sample_env "assign_row_id sample_output"] sample_valid
  have "distinct (map row_id (assign_row_id sample_output))"
    by blast
  ultimately show ?thesis using sample_single_valid by blast
qed

text \<open>
  Claim C7.  The two table-wide checks of the schema reject nothing, so a table that
  breaks a cross-field check is not rejected as a whole.  The normalized sample frame
  whose row has the year 2018 and the date \<open>2019-01-01\<close> passes validation and is
  handed to the publisher; and for a table with a row without a null cell the validator
  raises, the exception leaves \<open>main\<close>, and the source that follows is not processed.
\<close>

theorem cross_field_failure_published:
  "transform_dataframe sample_serialize_to_wkt sample_labels misaligned_source =
     Inr misaligned_output \<and>
   map year misaligned_output = [Some 2018] \<and>
   map year_date misaligned_output = [Some ''2019-01-01''] \<and>
   main sample_env sample_update sample_serialize_to_wkt sample_labels (Inr misaligned_source) =
     (None,
      \<lparr>log =
         [Info ''Getting data for source ACS5'',
          Info ''Validating dataframe for source ACS5'',
          Info ''Updating Socrata dataset for source ACS5: enbi-fu9w'',
          Info ''Updated Socrata dataset; revision will be published soon: https://nhit-odp.data.socrata.com/d/enbi-fu9w/revisions/1''],
       published = [assign_row_id misaligned_output]\<rparr>) \<and>
   main_loop sample_env sample_update
     [(''FULL'', Inr [sample_full]), (''ACS5'', Inr sample_output)]
     \<lparr>log = [], published = []\<rparr> =
     (Some (Raised ''AttributeError''),
      \<lparr>log =
         [Info ''Getting data for source FULL'',
          Info ''Validating dataframe for source FULL''],
       published = []\<rparr>)"
proof -
  have u: "sample_update (assign_row_id misaligned_output) =
     Inr ''https://nhit-odp.data.socrata.com/d/enbi-fu9w/revisions/1''"
    by (simp add: sample_update_def)
  have a: "main sample_env sample_update sample_serialize_to_wkt sample_labels (Inr misaligned_source) =
     (None,
      \<lparr>log =
         [Info ''Getting data for source ACS5'',
          Info ''Validating dataframe for source ACS5'',
          Info ''Updating Socrata dataset for source ACS5: enbi-fu9w'',
          Info ''Updated Socrata dataset; revision will be published soon: https://nhit-odp.data.socrata.com/d/enbi-fu9w/revisions/1''],
       published = [assign_row_id misaligned_output]\<rparr>)"
    unfolding main_def get_source_acs5_def sum.case misaligned_transform
      main_loop_update_ok [where update = sample_update, OF misaligned_valid u]
    by (simp add: logger_def DATASET_ID_def)
  have b: "main_loop sample_env sample_update
     [(''FULL'', Inr [sample_full]), (''ACS5'', Inr sample_output)]
     \<lparr>log = [], published = []\<rparr> =
     (Some (Raised ''AttributeError''),
      \<lparr>log =
         [Info ''Getting data for source FULL'',
          Info ''Validating dataframe for source FULL''],
       published = []\<rparr>)"
    unfolding main_loop_validation_raise [OF full_raises]
    by (simp add: logger_def)
  have c: "map year misaligned_output = [Some 2018]"
    "map year_date misaligned_output = [Some ''2019-01-01'']"
    by (simp_all add: misaligned_output_def sample_canonical_def)
  from misaligned_transform a b c show ?thesis by blast
qed




text \<open>
  Claim C9 says that a row with a malformed geometry is dropped and the other rows are
  kept.  \<open>transform_dataframe\<close> has no step that drops a row for its geometry.  With a
  serializer that raises on the malformed geometry the whole normalization fails and the
  exception leaves \<open>main\<close>; with one that returns null for it the row stays in the output,
  with a null \<open>location\<close>.
\<close>

theorem malformed_geometry_not_dropped:
  "transform_dataframe sample_serialize_to_wkt sample_labels malformed_source =
     Inl (Raised ''ValueError'') \<and>
   fst (main sample_env sample_update sample_serialize_to_wkt sample_labels (Inr malformed_source)) =
     Some (Raised ''ValueError'') \<and>
   transform_dataframe lenient_serialize_to_wkt sample_labels malformed_source =
     Inr malformed_output \<and>
   map variable malformed_output = [Some ''DP05_0002E'', Some ''DP05_0003E''] \<and>
   map location malformed_output = [Some ''POINT (-86.6 32.5)'', None]"
proof -
  have "fst (main sample_env sample_update sample_serialize_to_wkt sample_labels (Inr malformed_source)) =
     Some (Raised ''ValueError'')"
    by (simp add: main_def get_source_acs5_def malformed_raises)
  moreover have "map variable malformed_output = [Some ''DP05_0002E'', Some ''DP05_0003E'']"
    "map location malformed_output = [Some ''POINT (-86.6 32.5)'', None]"
    by (simp_all add: malformed_output_def sample_canonical_def)
  ultimately show ?thesis using malformed_raises malformed_lenient by blast
qed

text \<open>
  Claim C9 as amended.  The serializer is applied to the geometry of every row that passes
  the conflicting-definition filter.  If it raises on one of them, \<open>transform_dataframe\<close>
  raises and returns no table.  If it returns on all of them, \<open>transform_dataframe\<close>
  returns a table, and every such row with a value that is not null is in it, with
  \<open>location\<close> set to what the serializer returned for its geometry, null included: no row
  is dropped on account of its geometry.
\<close>

theorem geometry_never_drops_rows:
  "((\<exists>r\<in>set src. \<not> changed_meaning r \<and> (\<exists>ex. ser (geometry r) = Inl ex)) \<longrightarrow>
      (\<exists>ex. transform_dataframe ser labels src = Inl ex)) \<and>
   ((\<forall>r\<in>set src. \<not> changed_meaning r \<longrightarrow> (\<exists>loc. ser (geometry r) = Inr loc)) \<longrightarrow>
      (\<exists>out. transform_dataframe ser labels src = Inr out \<and>
         (\<forall>r\<in>set src. \<not> changed_meaning r \<and> raw_value r \<noteq> None \<longrightarrow>
            (\<exists>row\<in>set out. variable row = variable_code r \<and> year row = Some (raw_year r) \<and>
               value' row = raw_value r \<and> year_date row = date r \<and> geo_id row = raw_geo_id r \<and>
               geo_name row = name r \<and> geo_type row = raw_geo_type r \<and>
               ser (geometry r) = Inr (location row)))))"
proof (intro conjI impI)
  let ?df = "filter (\<lambda>r. \<not> changed_meaning r) src"
  assume "\<exists>r\<in>set src. \<not> changed_meaning r \<and> (\<exists>ex. ser (geometry r) = Inl ex)"
  then have "\<exists>x\<in>set (map geometry ?df). \<exists>ex. ser x = Inl ex"
    by auto
  then obtain ex where "series_map ser (map geometry ?df) = Inl ex"
    using series_map_Inl_iff [of ser "map geometry ?df"] by blast
  then show "\<exists>ex. transform_dataframe ser labels src = Inl ex"
    by (simp add: transform_dataframe_def)
next
  let ?df = "filter (\<lambda>r. \<not> changed_meaning r) src"
  assume "\<forall>r\<in>set src. \<not> changed_meaning r \<longrightarrow> (\<exists>loc. ser (geometry r) = Inr loc)"
  then have "\<forall>x\<in>set (map geometry ?df). \<exists>y. ser x = Inr y"
    by auto
  then obtain locations where "series_map ser (map geometry ?df) = Inr locations"
    using series_map_total by blast
  then obtain out where out: "transform_dataframe ser labels src = Inr out"
    by (simp add: transform_dataframe_def Let_def)
  have "\<forall>r\<in>set src. \<not> changed_meaning r \<and> raw_value r \<noteq> None \<longrightarrow>
            (\<exists>row\<in>set out. variable row = variable_code r \<and> year row = Some (raw_year r) \<and>
               value' row = raw_value r \<and> year_date row = date r \<and> geo_id row = raw_geo_id r \<and>
               geo_name row = name r \<and> geo_type row = raw_geo_type r \<and>
               ser (geometry r) = Inr (location row))"
    using transform_dataframe_keeps [OF out] by blast
  with out show "\<exists>out. transform_dataframe ser labels src = Inr out \<and>
         (\<forall>r\<in>set src. \<not> changed_meaning r \<and> raw_value r \<noteq> None \<longrightarrow>
            (\<exists>row\<in>set out. variable row = variable_code r \<and> year row = Some (raw_year r) \<and>
               value' row = raw_value r \<and> year_date row = date r \<and> geo_id row = raw_geo_id r \<and>
               geo_name row = name r \<and> geo_type row = raw_geo_type r \<and>
               ser (geometry r) = Inr (location row)))"
    by blast
qed

text \<open>The table with one malformed geometry, under the raising and under the lenient
  serializer.\<close>

theorem geometry_never_drops_rows_witness:
  "malformed_source ! 1 \<in> set malformed_source \<and>
   \<not> changed_meaning (malformed_source ! 1) \<and>
   sample_serialize_to_wkt (geometry (malformed_source ! 1)) = Inl (Raised ''ValueError'') \<and>
   isl (transform_dataframe sample_serialize_to_wkt sample_labels malformed_source) \<and>
   lenient_serialize_to_wkt (geometry (malformed_source ! 1)) = Inr None \<and>
   \<not> isl (transform_dataframe lenient_serialize_to_wkt sample_labels malformed_source)"
proof -
  have m: "malformed_source ! 1 \<in> set malformed_source"
    by (simp add: malformed_source_def)
  have n: "\<not> changed_meaning (malformed_source ! 1)"
    by (simp add: malformed_source_def sample_raw_def changed_meaning_def)
  have r: "sample_serialize_to_wkt (geometry (malformed_source ! 1)) = Inl (Raised ''ValueError'')"
    by (simp add: malformed_source_def sample_raw_def sample_serialize_to_wkt_def)
  from m n r have "\<exists>r\<in>set malformed_source. \<not> changed_meaning r \<and>
      (\<exists>ex. sample_serialize_to_wkt (geometry r) = Inl ex)"
    by blast
  with geometry_never_drops_rows [of malformed_source sample_serialize_to_wkt sample_labels]
  have a: "isl (transform_dataframe sample_serialize_to_wkt sample_labels malformed_source)"
    by auto
  have l: "lenient_serialize_to_wkt (geometry (malformed_source ! 1)) = Inr None"
    by (simp add: malformed_source_def sample_raw_def lenient_serialize_to_wkt_def)
  have "\<forall>r\<in>set malformed_source. \<not> changed_meaning r \<longrightarrow>
      (\<exists>loc. lenient_serialize_to_wkt (geometry r) = Inr loc)"
    by (simp add: lenient_serialize_to_wkt_def)
  with geometry_never_drops_rows [of malformed_source lenient_serialize_to_wkt sample_labels]
  have b: "\<not> isl (transform_dataframe lenient_serialize_to_wkt sample_labels malformed_source)"
    by auto
  from m n r a l b show ?thesis by blast
qed

text \<open>
  Claim C10.  Every row of a table that the ACS5 normalizer returns has null
  \<open>denominator_variable\<close>, \<open>denominator_label\<close> and \<open>denominator\<close>, and the identifier that
  \<open>assign_row_id\<close> gives it is \<open>ACS5|\<close>, the variable, \<open>||\<close>, the year, \<open>|\<close>, the
  \<open>geo_id\<close>.
\<close>

theorem acs5_row_id_shape:
  assumes "transform_dataframe ser labels src = Inr out"
  shows
   "(\<forall>row\<in>set out. denominator_variable row = None \<and> denominator_label row = None \<and>
        denominator row = None) \<and>
    (\<forall>row\<in>set (assign_row_id out). \<exists>y. year row = Some y \<and>
        row_id row = Some (''ACS5|'' @ fmt_str (variable row) @ ''||'' @ str_int y @ ''|'' @
                           fmt_str (geo_id row)))"
proof -
  have d: "denominator_variable row = None \<and> denominator_label row = None \<and>
      denominator row = None" if "row \<in> set out" for row
    using transform_dataframe_origin [OF assms that] by blast
  have k: "\<exists>y. year row = Some y \<and>
        row_id row = Some (''ACS5|'' @ fmt_str (variable row) @ ''||'' @ str_int y @ ''|'' @
                           fmt_str (geo_id row))"
    if "row \<in> set (assign_row_id out)" for row
  proof -
    have "\<not> list_ex (\<lambda>row. year row = None) out"
      using transform_dataframe_origin [OF assms] by (fastforce simp: list_ex_iff)
    with that obtain row0 where r0: "row0 \<in> set out"
      and row: "row = canonical_row.extend row0 \<lparr>row_id = Some (make_row_id row0)\<rparr>"
      by (auto simp: assign_row_id_def)
    from transform_dataframe_origin [OF assms r0] obtain y where
      "source row0 = Some ''ACS5''" "denominator_variable row0 = None" "year row0 = Some y"
      by blast
    then show ?thesis
      by (simp add: row canonical_row.extend_def make_row_id_def fmt_str_def fmt_int_def)
  qed
  from d k show ?thesis by blast
qed

text \<open>The identifiers of the sample output.\<close>

theorem acs5_row_id_shape_witness:
  "transform_dataframe sample_serialize_to_wkt sample_labels sample_source = Inr sample_output \<and>
   map denominator_variable sample_output = [None, None, None] \<and>
   map denominator_label sample_output = [None, None, None] \<and>
   map denominator sample_output = [None, None, None] \<and>
   map row_id (assign_row_id sample_output) =
     [Some ''ACS5|DP05_0002E||2018|0500000US01001'',
      Some ''ACS5|DP05_0017E||2016|0500000US01001'',
      Some ''ACS5|DP05_0018E||2017|0500000US01001'']"
proof -
  from acs5_row_id_shape [OF sample_transform]
  have "\<forall>row\<in>set sample_output. denominator_variable row = None \<and>
      denominator_label row = None \<and> denominator row = None"
    by blast
  then have "map denominator_variable sample_output = [None, None, None] \<and>
   map denominator_label sample_output = [None, None, None] \<and>
   map denominator sample_output = [None, None, None]"
    by (simp add: sample_output_def)
  with sample_transform sample_row_ids show ?thesis by blast
qed

end
